theory Spec2Isabelle
  imports Complex_Main "HOL-Library.Sublist"
begin

section \<open>Strings and the JavaScript primitives the downloader uses\<close>

text \<open>
  JavaScript strings are modelled as \<^typ>\<open>string\<close>: a \<^typ>\<open>char\<close> is a code unit from
  \<open>U+0000\<close> to \<open>U+00FF\<close>, so the strings of the model are those without a code unit
  above \<open>U+00FF\<close>. The white space that \<open>String.prototype.trim\<close> and \<open>parseInt\<close>
  skip is, in that range: tab, line feed, vertical tab, form feed, carriage return, space
  and the no-break space \<open>U+00A0\<close>. Integers that \<open>parseInt\<close> returns are modelled as
  exact \<^typ>\<open>int\<close> values (zoom levels are far below \<open>2^53\<close>, where doubles stop being
  exact); \<open>NaN\<close> is \<open>None\<close>.
\<close>

definition is_space :: "char \<Rightarrow> bool" where
  "is_space c = (c \<in> {CHR 0x09, CHR 0x0A, CHR 0x0B, CHR 0x0C, CHR 0x0D, CHR 0x20, CHR 0xA0})"

text \<open>A decimal digit: a character from \<open>0\<close> (code 48) to \<open>9\<close> (code 57).\<close>

definition is_digit :: "char \<Rightarrow> bool" where
  "is_digit c = (48 \<le> (of_char c :: nat) \<and> (of_char c :: nat) \<le> 57)"

definition digit_val :: "char \<Rightarrow> int" where
  "digit_val c = int (of_char c) - 48"

text \<open>The value of a run of decimal digits, most significant digit first.\<close>

definition digits_val :: "string \<Rightarrow> int" where
  "digits_val ds = foldl (\<lambda>acc c. 10 * acc + digit_val c) 0 ds"

text \<open>\<open>String.prototype.trim\<close>.\<close>

definition trim :: "string \<Rightarrow> string" where
  "trim s = rev (dropWhile is_space (rev (dropWhile is_space s)))"

text \<open>
  \<open>String.prototype.split\<close> with a separator of one character: the pieces between the
  separators, empty pieces kept; the empty string gives one empty piece.
\<close>

fun split_on :: "char \<Rightarrow> string \<Rightarrow> string list" where
  "split_on c [] = [[]]"
| "split_on c (x # xs) =
     (if x = c then [] # split_on c xs
      else (case split_on c xs of
              [] \<Rightarrow> [[x]]
            | p # ps \<Rightarrow> (x # p) # ps))"

text \<open>
  \<open>parseInt(s, 10)\<close>: leading white space is skipped, one sign is read, then the
  longest run of decimal digits; no digit gives \<open>NaN\<close>. Whatever follows the digits is
  ignored.
\<close>

definition parseInt :: "string \<Rightarrow> int option" where
  "parseInt s =
     (let s1 = dropWhile is_space s;
          sign = (case s1 of [] \<Rightarrow> 1 | c # _ \<Rightarrow> if c = CHR ''-'' then - 1 else (1::int));
          s2 = (case s1 of [] \<Rightarrow> [] | c # r \<Rightarrow> if c = CHR ''-'' \<or> c = CHR ''+'' then r else s1);
          z = takeWhile is_digit s2
      in if z = [] then None else Some (sign * digits_val z))"

section \<open>Zoom-level parsing (\<open>parseZooms\<close>)\<close>

text \<open>
  The values that reach \<open>parseZooms\<close>: \<open>undefined\<close> (no flag, no environment
  variable), \<open>true\<close> (a flag without a value), a string, or an array of such values.
\<close>

datatype jsval = Undefined | JTrue | JStr string | JArr "jsval list"

definition DEFAULT_ZOOMS :: "int list" where
  "DEFAULT_ZOOMS = [12]"

text \<open>\<open>Array.prototype.indexOf\<close>: the first index holding the value, \<open>-1\<close> when absent.\<close>

fun indexOf :: "'a list \<Rightarrow> 'a \<Rightarrow> int" where
  "indexOf [] v = - 1"
| "indexOf (x # xs) v =
     (if x = v then 0 else (let i = indexOf xs v in if i < 0 then - 1 else i + 1))"

text \<open>\<open>arr.filter((zoom, index, arr) => arr.indexOf(zoom) === index)\<close>.\<close>

definition first_occurrences :: "'a list \<Rightarrow> 'a list" where
  "first_occurrences arr =
     map snd (filter (\<lambda>(index, zoom). indexOf arr zoom = int index) (enumerate 0 arr))"

text \<open>The body of \<open>parseZooms\<close> below the array test, on \<open>String(value)\<close>.\<close>

definition parseZoomString :: "string \<Rightarrow> int list" where
  "parseZoomString s =
     (let stringValue = trim s;
          parts = map parseInt (split_on CHR ''-'' stringValue);
          list = List.map_filter (\<lambda>part. parseInt (trim part)) (split_on CHR '','' stringValue)
      in if CHR ''-'' \<in> set stringValue then
           (case parts of
              Some start # Some end # _ \<Rightarrow> if start \<le> end then [start..end] else list
            | _ \<Rightarrow> list)
         else list)"

fun parseZooms :: "jsval \<Rightarrow> int list" where
  "parseZooms Undefined = DEFAULT_ZOOMS"
| "parseZooms JTrue = parseZoomString ''true''"
| "parseZooms (JStr s) = (if s = [] then DEFAULT_ZOOMS else parseZoomString s)"
| "parseZooms (JArr vs) =
     (if vs = [] then DEFAULT_ZOOMS
      else sort (first_occurrences (concat (map parseZooms vs))))"






section \<open>Paths (\<open>path.join\<close>, \<open>path.normalize\<close> on POSIX)\<close>

text \<open>
  Node's \<open>path\<close> module is not part of the repository; its POSIX functions are modelled
  from Node's implementation. A path is cut at every \<open>/\<close>; empty segments and \<open>.\<close>
  are skipped; \<open>..\<close> removes the segment before it, and where there is none it is kept
  in a relative path and ignored in an absolute one.
\<close>

fun normalizeString :: "bool \<Rightarrow> string list \<Rightarrow> string list \<Rightarrow> string list" where
  "normalizeString allowAboveRoot res [] = res"
| "normalizeString allowAboveRoot res (seg # segs) =
     (if seg = [] \<or> seg = ''.'' then normalizeString allowAboveRoot res segs
      else if seg = ''..'' then
        (if res \<noteq> [] \<and> last res \<noteq> ''..'' then normalizeString allowAboveRoot (butlast res) segs
         else if allowAboveRoot then normalizeString allowAboveRoot (res @ [''..'']) segs
         else normalizeString allowAboveRoot res segs)
      else normalizeString allowAboveRoot (res @ [seg]) segs)"

fun join_slash :: "string list \<Rightarrow> string" where
  "join_slash [] = []"
| "join_slash [s] = s"
| "join_slash (s # t # ss) = s @ ''/'' @ join_slash (t # ss)"

definition path_normalize :: "string \<Rightarrow> string" where
  "path_normalize p =
     (if p = [] then ''.''
      else
        let isAbsolute = (hd p = CHR ''/'');
            trailingSeparator = (last p = CHR ''/'');
            q = join_slash (normalizeString (\<not> isAbsolute) [] (split_on CHR ''/'' p))
        in if q = [] then (if isAbsolute then ''/'' else if trailingSeparator then ''./'' else ''.'')
           else (if isAbsolute then ''/'' else []) @ q @ (if trailingSeparator then ''/'' else []))"

definition path_join :: "string list \<Rightarrow> string" where
  "path_join args =
     (let joined = join_slash (filter (\<lambda>arg. arg \<noteq> []) args)
      in if joined = [] then ''.'' else path_normalize joined)"

text \<open>
  What \<open>path.resolve\<close> returns, and so what \<open>TILE_ROOT\<close> is: an absolute path that
  normalisation leaves as it is, with no separator at its end unless it is \<open>/\<close> itself.
\<close>

definition is_resolved :: "string \<Rightarrow> bool" where
  "is_resolved dir =
     (dir \<noteq> [] \<and> hd dir = CHR ''/'' \<and> path_normalize dir = dir
      \<and> (dir = ''/'' \<or> last dir \<noteq> CHR ''/''))"

section \<open>The tile serving endpoint\<close>

definition ALLOWED_EXTENSIONS :: "string list" where
  "ALLOWED_EXTENSIONS = [''png'', ''jpg'', ''jpeg'', ''webp'']"

text \<open>\<open>/^\d+$/.test(value)\<close>: one decimal digit or more, and nothing else.\<close>

definition isValidCoordinate :: "string \<Rightarrow> bool" where
  "isValidCoordinate v = (v \<noteq> [] \<and> list_all is_digit v)"

text \<open>\<open>String.prototype.toLowerCase\<close>, on ASCII letters.\<close>

definition to_lower :: "char \<Rightarrow> char" where
  "to_lower c = (if 65 \<le> (of_char c :: nat) \<and> (of_char c :: nat) \<le> 90
                 then char_of (of_char c + (32 :: nat)) else c)"

definition toLowerCase :: "string \<Rightarrow> string" where
  "toLowerCase s = map to_lower s"

text \<open>
  What the file system holds at a path, as the two calls of the handler meet it.
  \<open>fs.access(path, R_OK)\<close> fails with an error code (\<open>ENOENT\<close> when nothing is there);
  or it succeeds, and \<open>res.sendFile\<close>, which is called without a callback, then streams
  the bytes of a file, or finds a directory (a directory passes the access test; Express
  then calls \<open>next()\<close>), or fails with another error (the file has gone meanwhile, a
  segment of the path starts with a dot; Express then calls \<open>next(err)\<close>). The requests
  of the model are plain ones, without conditional or range headers.
\<close>

datatype file_status =
  Readable string | Directory | Unsendable string | AccessError string

abbreviation Missing :: file_status where
  "Missing \<equiv> AccessError ''ENOENT''"

text \<open>
  A response body: a JSON object, the bytes of a file, or the HTML page of Express's
  final handler (\<open>Cannot GET\<close> and the path).
\<close>

datatype body = JsonObject "(string \<times> string) list" | FileBytes string | DefaultPage

record response =
  status :: nat
  headers :: "(string \<times> string) list"
  body :: body

definition json_response :: "nat \<Rightarrow> (string \<times> string) list \<Rightarrow> response" where
  "json_response code obj = \<lparr>status = code, headers = [], body = JsonObject obj\<rparr>"

text \<open>The error middleware registered after the routes, reached through \<open>next(error)\<close>.\<close>

definition error_middleware :: "response" where
  "error_middleware = json_response 500 [(''error'', ''Internal server error.'')]"

text \<open>
  What a request gets when \<open>next()\<close> is called and no route is left: the final handler of
  Express answers 404 with its own HTML page.
\<close>

definition final_handler :: "response" where
  "final_handler = \<lparr>status = 404, headers = [], body = DefaultPage\<rparr>"

text \<open>A JSON object with the one field \<open>error\<close>.\<close>

fun is_error_object :: "body \<Rightarrow> bool" where
  "is_error_object (JsonObject [(k, v)]) = (k = ''error'')"
| "is_error_object _ = False"

definition tile_handler ::
  "string \<Rightarrow> (string \<Rightarrow> file_status) \<Rightarrow> string \<Rightarrow> string \<Rightarrow> string \<Rightarrow> string \<Rightarrow> response" where
  "tile_handler TILE_ROOT fs z x y ext =
     (if \<not> isValidCoordinate z \<or> \<not> isValidCoordinate x \<or> \<not> isValidCoordinate y then
        json_response 400 [(''error'', ''Coordinates must be non-negative integers.'')]
      else
        let extension = toLowerCase ext in
        if extension \<notin> set ALLOWED_EXTENSIONS then
          json_response 415
            [(''error'', ''Unsupported tile extension '' @ [CHR 0x27] @ extension @ [CHR 0x27]
                @ ''. Allowed: '' @ ''png, jpg, jpeg, webp'' @ ''.'')]
        else
          let tilePath = path_join [TILE_ROOT, z, x, y @ ''.'' @ extension];
              normalizedTilePath = path_normalize tilePath
          in if \<not> prefix TILE_ROOT normalizedTilePath then
               json_response 403 [(''error'', ''Tile path escapes root directory.'')]
             else
               (case fs normalizedTilePath of
                  AccessError code \<Rightarrow>
                    if code = ''ENOENT'' then json_response 404 [(''error'', ''Tile not found.'')]
                    else error_middleware
                | Readable bytes \<Rightarrow>
                    \<lparr>status = 200,
                     headers = [(''Cache-Control'', ''public, max-age=86400, immutable'')],
                     body = FileBytes bytes\<rparr>
                | Directory \<Rightarrow> final_handler
                | Unsendable error \<Rightarrow> error_middleware))"

text \<open>
  A segment that normalisation keeps as it is, and one that also holds no separator.
\<close>

definition ordinary :: "string \<Rightarrow> bool" where
  "ordinary seg = (seg \<noteq> [] \<and> seg \<noteq> ''.'' \<and> seg \<noteq> ''..'')"

definition proper :: "string \<Rightarrow> bool" where
  "proper seg = (ordinary seg \<and> CHR ''/'' \<notin> set seg)"


section \<open>Geodesy (\<open>latLonToTile\<close>, \<open>computeBoundingBox\<close>)\<close>

text \<open>
  JavaScript numbers are modelled as exact real numbers: the rounding of doubles, their
  overflow to \<open>Infinity\<close> (a zoom of 1024 and more) and \<open>NaN\<close> are outside the model.
  A zoom level is an integer, as \<open>parseInt\<close> returns it, and may be negative.
\<close>

definition EARTH_RADIUS_METERS :: real where
  "EARTH_RADIUS_METERS = 6371008.8"




record bounding_box =
  minLat :: real
  maxLat :: real
  minLon :: real
  maxLon :: real

text \<open>The divisor of the longitude delta: the cosine of the latitude, at least \<open>1e-6\<close>.\<close>

definition cosDivisor :: "real \<Rightarrow> real" where
  "cosDivisor lat = max (cos ((lat * pi) / 180)) (1 / 1000000)"

definition computeBoundingBox :: "real \<Rightarrow> real \<Rightarrow> real \<Rightarrow> bounding_box" where
  "computeBoundingBox lat lon radiusMeters =
     (let angularRadius = radiusMeters / EARTH_RADIUS_METERS;
          latDelta = (angularRadius * 180) / pi;
          lonDelta = (angularRadius * 180) / (pi * cosDivisor lat)
      in \<lparr>minLat = lat - latDelta, maxLat = lat + latDelta,
          minLon = lon - lonDelta, maxLon = lon + lonDelta\<rparr>)"

section \<open>The tile address enumerator (the loop nest of \<open>main\<close>)\<close>





section \<open>The batch downloader (\<open>downloadTile\<close>, \<open>main\<close>)\<close>

text \<open>
  What \<open>await fetch(url)\<close> gives: the promise rejects (a transport error, with the text
  of \<open>error.message || String(error)\<close>), or it resolves to a response with a status, a
  status text and a body that \<open>arrayBuffer()\<close> either reads or fails to read.
\<close>

record http_response =
  status_code :: nat
  statusText :: string
  arrayBuffer :: "string + string"

datatype fetch_outcome = TransportError string | Response http_response

text \<open>\<open>response.ok\<close>, as the Fetch standard defines it: the status is in the range 200 to 299.\<close>

definition response_ok :: "http_response \<Rightarrow> bool" where
  "response_ok r = (200 \<le> status_code r \<and> status_code r \<le> 299)"

text \<open>
  The platform the downloader runs on, taken as a parameter: the network (the outcome of
  the \<open>n\<close>-th request of the run, for its URL), the two file system calls on a store of
  any type \<open>'fs\<close> (each returns the error text when it rejects, and the store it leaves),
  \<open>path.dirname\<close>, \<open>String.prototype.replaceAll\<close> (pattern, replacement, subject) and
  \<open>String(number)\<close>.
\<close>

record 'fs platform =
  fetch :: "nat \<Rightarrow> string \<Rightarrow> fetch_outcome"
  mkdir_recursive :: "string \<Rightarrow> 'fs \<Rightarrow> string option \<times> 'fs"
  writeFile :: "string \<Rightarrow> string \<Rightarrow> 'fs \<Rightarrow> string option \<times> 'fs"
  dirname :: "string \<Rightarrow> string"
  replaceAll :: "string \<Rightarrow> string \<Rightarrow> string \<Rightarrow> string"
  String_of :: "real \<Rightarrow> string"

text \<open>
  The state a run changes: the file store, the URLs requested so far, the failures
  reported with \<open>console.warn\<close> (zoom, x, y and the error text) and the milliseconds spent
  in \<open>delay\<close>.
\<close>

record 'fs world =
  store :: 'fs
  requests :: "string list"
  warnings :: "(int \<times> real \<times> real \<times> string) list"
  waited :: nat

datatype download_result = Success | Failure string

fun show_nat :: "nat \<Rightarrow> string" where
  "show_nat n = (if n < 10 then [char_of (48 + n)]
                 else show_nat (n div 10) @ [char_of (48 + n mod 10)])"

declare show_nat.simps [simp del]

definition downloadTile ::
  "'fs platform \<Rightarrow> string \<Rightarrow> string \<Rightarrow> 'fs world \<Rightarrow> download_result \<times> 'fs world" where
  "downloadTile env url outputPath w =
     (let w1 = w\<lparr>requests := requests w @ [url]\<rparr> in
      case fetch env (length (requests w)) url of
        TransportError message \<Rightarrow> (Failure message, w1)
      | Response response \<Rightarrow>
          if \<not> response_ok response then
            (Failure (''HTTP '' @ show_nat (status_code response) @ '' '' @ statusText response), w1)
          else
            (case arrayBuffer response of
               Inl message \<Rightarrow> (Failure message, w1)
             | Inr buffer \<Rightarrow>
                 (case mkdir_recursive env (dirname env outputPath) (store w1) of
                    (Some message, fs1) \<Rightarrow> (Failure message, w1\<lparr>store := fs1\<rparr>)
                  | (None, fs1) \<Rightarrow>
                      (case writeFile env outputPath buffer fs1 of
                         (Some message, fs2) \<Rightarrow> (Failure message, w1\<lparr>store := fs2\<rparr>)
                       | (None, fs2) \<Rightarrow> (Success, w1\<lparr>store := fs2\<rparr>)))))"











text \<open>
  A small platform to run the downloader on: the file store is the list of the files
  written, the first request is answered 404, the second 200 with a body, and any later
  one fails in transport.
\<close>

definition example_platform :: "(string \<times> string) list platform" where
  "example_platform =
     \<lparr>fetch = (\<lambda>n url.
          if n = 0 then Response \<lparr>status_code = 404, statusText = ''Not Found'', arrayBuffer = Inr []\<rparr>
          else if n = 1 then Response \<lparr>status_code = 200, statusText = ''OK'', arrayBuffer = Inr ''tile''\<rparr>
          else TransportError ''fetch failed''),
      mkdir_recursive = (\<lambda>dir store. (None, store)),
      writeFile = (\<lambda>file bytes store. (None, (file, bytes) # store)),
      dirname = (\<lambda>file. rev (drop 1 (dropWhile (\<lambda>c. c \<noteq> CHR ''/'') (rev file)))),
      replaceAll = (\<lambda>pattern replacement subject. subject),
      String_of = (\<lambda>r. show_nat (nat \<lfloor>r\<rfloor>))\<rparr>"

definition example_world :: "string list \<Rightarrow> (string \<times> string) list world" where
  "example_world urls = \<lparr>store = [], requests = urls, warnings = [], waited = 0\<rparr>"



section \<open>Properties of zoom-level parsing\<close>

subsection \<open>Deduplication keeps exactly the values of the array\<close>

lemma indexOf_absent: "v \<notin> set xs \<Longrightarrow> indexOf xs v = - 1"
  by (induction xs) (auto simp: Let_def)

lemma indexOf_present:
  "v \<in> set xs \<Longrightarrow> 0 \<le> indexOf xs v \<and> nat (indexOf xs v) < length xs \<and> xs ! nat (indexOf xs v) = v"
proof (induction xs)
  case Nil
  then show ?case by simp
next
  case (Cons x xs)
  show ?case
  proof (cases "x = v")
    case True
    then show ?thesis by simp
  next
    case False
    with Cons.prems have "v \<in> set xs" by simp
    from Cons.IH [OF this] False show ?thesis
      by (simp add: Let_def nat_add_distrib)
  qed
qed

lemma set_first_occurrences: "set (first_occurrences xs) = set xs"
proof
  show "set (first_occurrences xs) \<subseteq> set xs"
    by (auto simp: first_occurrences_def in_set_enumerate_eq)
next
  show "set xs \<subseteq> set (first_occurrences xs)"
  proof
    fix v assume v: "v \<in> set xs"
    let ?i = "nat (indexOf xs v)"
    from indexOf_present [OF v]
    have "(?i, v) \<in> set (enumerate 0 xs)" and "indexOf xs v = int ?i"
      by (simp_all add: in_set_enumerate_eq)
    then have "(?i, v) \<in> set (filter (\<lambda>(index, zoom). indexOf xs zoom = int index) (enumerate 0 xs))"
      by simp
    then show "v \<in> set (first_occurrences xs)"
      unfolding first_occurrences_def by (metis image_eqI set_map snd_conv)
  qed
qed

lemma distinct_first_occurrences: "distinct (first_occurrences xs)"
  unfolding first_occurrences_def
  by (auto simp: distinct_map inj_on_def)


subsection \<open>When \<open>parseInt\<close> returns a number\<close>
















subsection \<open>Which scalar entries are dropped\<close>






subsection \<open>Which parts of a comma list are dropped\<close>





subsection \<open>Arrays of specifications\<close>

text \<open>
  The two examples: \<open>parseZooms("12-14")\<close> is \<open>[12, 13, 14]\<close> and
  \<open>parseZooms(["12", "12", "13"])\<close> is \<open>[12, 13]\<close>. The union, the removal of
  duplicates and the ascending sort are done in the array branch: for every non-empty
  array the result is sorted ascending, has no duplicates, and holds exactly the zoom
  levels that \<open>parseZooms\<close> returns for the elements of the array.
\<close>

lemma parseZooms_array_sorted_distinct_union:
  assumes "vs \<noteq> []"
  shows "parseZooms (JStr ''12-14'') = [12, 13, 14]
       \<and> parseZooms (JArr [JStr ''12'', JStr ''12'', JStr ''13'']) = [12, 13]
       \<and> sorted (parseZooms (JArr vs))
       \<and> distinct (parseZooms (JArr vs))
       \<and> set (parseZooms (JArr vs)) = (\<Union>v \<in> set vs. set (parseZooms v))"
proof -
  have "parseZooms (JStr ''12-14'') = [12, 13, 14]"
    by code_simp
  moreover have "parseZooms (JArr [JStr ''12'', JStr ''12'', JStr ''13'']) = [12, 13]"
    by code_simp
  moreover have "sorted (parseZooms (JArr vs))"
    using assms by simp
  moreover have "distinct (parseZooms (JArr vs))"
    using assms by (simp add: distinct_first_occurrences)
  moreover have "set (parseZooms (JArr vs)) = (\<Union>v \<in> set vs. set (parseZooms v))"
    using assms by (simp add: set_first_occurrences)
  ultimately show ?thesis by blast
qed

lemma parseZooms_array_example:
  "[JStr ''13-14'', JStr ''3,1'', JStr ''14''] \<noteq> []
   \<and> parseZooms (JArr [JStr ''13-14'', JStr ''3,1'', JStr ''14'']) = [1, 3, 13, 14]
   \<and> sorted (parseZooms (JArr [JStr ''13-14'', JStr ''3,1'', JStr ''14'']))
   \<and> distinct (parseZooms (JArr [JStr ''13-14'', JStr ''3,1'', JStr ''14'']))"
proof -
  have ne: "[JStr ''13-14'', JStr ''3,1'', JStr ''14''] \<noteq> []" by simp
  have "parseZooms (JArr [JStr ''13-14'', JStr ''3,1'', JStr ''14'']) = [1, 3, 13, 14]"
    by code_simp
  with ne parseZooms_array_sorted_distinct_union [OF ne] show ?thesis by blast
qed

text \<open>
  Claim C4. Specifications are to be unioned, deduplicated and sorted ascending whatever
  way they are written. The array branch does so; the string branch returns before the
  sort and the removal of duplicates are reached, so the one comma list \<open>"13,12,12"\<close>
  comes back in written order with its duplicate: \<open>[13, 12, 12]\<close>, where the array
  \<open>["13", "12", "12"]\<close> of the same specifications gives \<open>[12, 13]\<close>.
\<close>

theorem parseZooms_comma_string_unsorted:
  "parseZooms (JStr ''13,12,12'') = [13, 12, 12]
   \<and> \<not> sorted (parseZooms (JStr ''13,12,12''))
   \<and> \<not> distinct (parseZooms (JStr ''13,12,12''))
   \<and> parseZooms (JArr [JStr ''13'', JStr ''12'', JStr ''12'']) = [12, 13]"
proof -
  have "parseZooms (JStr ''13,12,12'') = [13, 12, 12]"
    by code_simp
  moreover have "parseZooms (JArr [JStr ''13'', JStr ''12'', JStr ''12'']) = [12, 13]"
    by code_simp
  ultimately show ?thesis by simp
qed

section \<open>Properties of the path functions\<close>

lemma split_on_not_Nil: "split_on c s \<noteq> []"
  by (induction s) (auto split: list.splits)

lemma split_on_append: "split_on c (a @ c # b) = split_on c a @ split_on c b"
proof (induction a)
  case Nil
  then show ?case by simp
next
  case (Cons x a)
  obtain p ps where "split_on c a = p # ps"
    using split_on_not_Nil [of c a] by (cases "split_on c a") auto
  with Cons show ?case by simp
qed

lemma split_on_no_sep: "c \<notin> set s \<Longrightarrow> split_on c s = [s]"
  by (induction s) auto

lemma split_on_cons_sep:
  "c \<notin> set s \<Longrightarrow> split_on c (s @ c # b) = s # split_on c b"
  by (induction s) auto

lemma split_on_sep_free: "p \<in> set (split_on c s) \<Longrightarrow> c \<notin> set p"
  by (induction s arbitrary: p) (auto split: list.splits if_splits)

lemma split_on_join_slash:
  "segs \<noteq> [] \<Longrightarrow> list_all (\<lambda>s. CHR ''/'' \<notin> set s) segs \<Longrightarrow>
     split_on CHR ''/'' (join_slash segs) = segs"
proof (induction segs rule: join_slash.induct)
  case 1
  then show ?case by simp
next
  case (2 s)
  then show ?case by (simp add: split_on_no_sep)
next
  case (3 s t ss)
  then show ?case using split_on_cons_sep [of "CHR ''/''" s "join_slash (t # ss)"] by simp
qed

lemma normalizeString_ordinary:
  "list_all ordinary segs \<Longrightarrow> normalizeString a res segs = res @ segs"
  by (induction segs arbitrary: res) (auto simp: ordinary_def)

lemma normalizeString_append:
  "normalizeString a res (xs @ ys) = normalizeString a (normalizeString a res xs) ys"
  by (induction xs arbitrary: res) auto

lemma normalizeString_result:
  "list_all (\<lambda>s. ordinary s \<and> CHR ''/'' \<notin> set s) res \<Longrightarrow>
   list_all (\<lambda>s. CHR ''/'' \<notin> set s) segs \<Longrightarrow>
   list_all (\<lambda>s. ordinary s \<and> CHR ''/'' \<notin> set s) (normalizeString False res segs)"
proof (induction segs arbitrary: res)
  case Nil
  then show ?case by simp
next
  case (Cons seg segs)
  have bl: "list_all (\<lambda>s. ordinary s \<and> CHR ''/'' \<notin> set s) (butlast res)"
    using Cons.prems(1) by (auto simp: list_all_iff dest: in_set_butlastD)
  show ?case
    using Cons.IH [of res] Cons.IH [of "butlast res"] Cons.IH [of "res @ [seg]"] Cons.prems bl
    by (auto simp: ordinary_def)
qed

lemma join_slash_snoc:
  "res \<noteq> [] \<Longrightarrow> join_slash (res @ [s]) = join_slash res @ ''/'' @ s"
  by (induction res rule: join_slash.induct) auto

lemma join_slash_Nil_iff: "list_all ordinary segs \<Longrightarrow> join_slash segs = [] \<longleftrightarrow> segs = []"
  by (induction segs rule: join_slash.induct) (auto simp: ordinary_def)

lemma proper_ordinary: "list_all proper segs \<Longrightarrow> list_all ordinary segs"
  by (simp add: proper_def list_all_iff)

lemma proper_slash_free: "list_all proper segs \<Longrightarrow> list_all (\<lambda>s. CHR ''/'' \<notin> set s) segs"
  by (simp add: proper_def list_all_iff)

lemma join_slash_Cons: "segs \<noteq> [] \<Longrightarrow> join_slash (s # segs) = s @ ''/'' @ join_slash segs"
  by (cases segs) auto

lemma join_slash_append:
  "res \<noteq> [] \<Longrightarrow> segs \<noteq> [] \<Longrightarrow> join_slash (res @ segs) = join_slash res @ ''/'' @ join_slash segs"
  by (induction res rule: join_slash.induct) (auto simp: join_slash_Cons)

lemma last_join_slash:
  "segs \<noteq> [] \<Longrightarrow> list_all proper segs \<Longrightarrow> last (join_slash segs) \<noteq> CHR ''/''"
proof (induction segs rule: join_slash.induct)
  case 1
  then show ?case by simp
next
  case (2 s)
  then have "s \<noteq> []" and "CHR ''/'' \<notin> set s"
    by (simp_all add: proper_def ordinary_def)
  then have "last s \<noteq> CHR ''/''"
    by (metis last_in_set)
  then show ?case by simp
next
  case (3 s t ss)
  then have "join_slash (t # ss) \<noteq> []"
    using join_slash_Nil_iff [of "t # ss"] proper_ordinary [of "t # ss"] by simp
  with 3 show ?case by simp
qed

text \<open>Normalising an absolute path that does not end in a separator.\<close>

lemma path_normalize_absolute_unfold:
  assumes "p \<noteq> []" and "hd p = CHR ''/''" and "last p \<noteq> CHR ''/''"
  shows "path_normalize p =
           (if join_slash (normalizeString False [] (split_on CHR ''/'' p)) = [] then ''/''
            else CHR ''/'' # join_slash (normalizeString False [] (split_on CHR ''/'' p)))"
  using assms by (simp add: path_normalize_def Let_def)

text \<open>An absolute path built from proper segments is in normal form.\<close>

lemma path_normalize_absolute:
  assumes "segs \<noteq> []" and "list_all proper segs"
  shows "path_normalize (CHR ''/'' # join_slash segs) = CHR ''/'' # join_slash segs"
proof -
  have ne: "join_slash segs \<noteq> []"
    using assms join_slash_Nil_iff proper_ordinary by blast
  have sp: "split_on CHR ''/'' (CHR ''/'' # join_slash segs) = [] # segs"
    using assms by (simp add: split_on_join_slash proper_slash_free)
  have ns: "normalizeString False [] ([] # segs) = segs"
    using assms by (simp add: normalizeString_ordinary proper_ordinary)
  have la: "last (CHR ''/'' # join_slash segs) \<noteq> CHR ''/''"
    using ne last_join_slash [OF assms] by simp
  have "path_normalize (CHR ''/'' # join_slash segs) =
          (if join_slash segs = [] then ''/'' else CHR ''/'' # join_slash segs)"
    using path_normalize_absolute_unfold [OF _ _ la] unfolding sp ns by simp
  with ne show ?thesis by simp
qed

text \<open>The segments of a resolved root.\<close>

lemma resolved_root_segments:
  assumes "is_resolved r"
  obtains S where "normalizeString False [] (split_on CHR ''/'' r) = S"
    and "list_all proper S"
    and "r = (if S = [] then ''/'' else CHR ''/'' # join_slash S)"
proof -
  define S where "S = normalizeString False [] (split_on CHR ''/'' r)"
  have sf: "list_all (\<lambda>s. CHR ''/'' \<notin> set s) (split_on CHR ''/'' r)"
    by (auto simp: list_all_iff dest: split_on_sep_free)
  have "proper = (\<lambda>s. ordinary s \<and> CHR ''/'' \<notin> set s)"
    by (auto simp: proper_def)
  then have pr: "list_all proper S"
    using normalizeString_result [of "[]" "split_on CHR ''/'' r"] sf
    by (simp add: S_def)
  from assms have r: "r \<noteq> []" "hd r = CHR ''/''" and fixed: "path_normalize r = r"
    and t: "r = ''/'' \<or> last r \<noteq> CHR ''/''"
    by (simp_all add: is_resolved_def)
  have jn: "join_slash S = [] \<longleftrightarrow> S = []"
    using pr join_slash_Nil_iff proper_ordinary by blast
  have eq: "r = (if S = [] then ''/'' else CHR ''/'' # join_slash S)"
  proof (cases "r = ''/''")
    case True
    then show ?thesis by (simp add: S_def)
  next
    case False
    with t have "last r \<noteq> CHR ''/''" by simp
    from path_normalize_absolute_unfold [OF r this]
    have "r = (if join_slash S = [] then ''/'' else CHR ''/'' # join_slash S)"
      unfolding fixed S_def .
    then show ?thesis unfolding jn .
  qed
  show ?thesis
    by (rule that [OF S_def [symmetric] pr eq])
qed

lemma path_join_under_root:
  assumes "is_resolved r" and "segs \<noteq> []" and "list_all proper segs"
  shows "path_join (r # segs) = (if r = ''/'' then ''/'' else r @ ''/'') @ join_slash segs"
proof -
  obtain S where S: "normalizeString False [] (split_on CHR ''/'' r) = S"
    and pS: "list_all proper S"
    and rS: "r = (if S = [] then ''/'' else CHR ''/'' # join_slash S)"
    using resolved_root_segments [OF assms(1)] by blast
  from assms(1) have r: "r \<noteq> []" "hd r = CHR ''/''" by (simp_all add: is_resolved_def)
  let ?joined = "r @ CHR ''/'' # join_slash segs"
  have nonempty: "filter (\<lambda>arg. arg \<noteq> []) (r # segs) = r # segs"
    using r assms(3) by (auto simp: proper_def ordinary_def list_all_iff filter_id_conv)
  have joined: "join_slash (r # segs) = ?joined"
    using assms(2) by (simp add: join_slash_Cons)
  have jne: "join_slash segs \<noteq> []"
    using assms join_slash_Nil_iff proper_ordinary by blast
  have sp: "split_on CHR ''/'' ?joined = split_on CHR ''/'' r @ segs"
    using assms by (simp add: split_on_append split_on_join_slash proper_slash_free)
  have ns: "normalizeString False [] (split_on CHR ''/'' r @ segs) = S @ segs"
    using S assms(3) by (simp add: normalizeString_append normalizeString_ordinary proper_ordinary)
  have pall: "list_all proper (S @ segs)"
    using pS assms(3) by simp
  have jall: "join_slash (S @ segs) \<noteq> []"
    using pall assms(2) join_slash_Nil_iff [of "S @ segs"] proper_ordinary [of "S @ segs"] by simp
  have la: "last ?joined \<noteq> CHR ''/''"
    using jne last_join_slash [OF assms(2,3)] by simp
  have hd: "hd ?joined = CHR ''/''" and ne: "?joined \<noteq> []"
    using r by simp_all
  have "path_join (r # segs) = path_normalize ?joined"
    unfolding path_join_def Let_def nonempty joined by simp
  also have "\<dots> = CHR ''/'' # join_slash (S @ segs)"
    using path_normalize_absolute_unfold [OF ne hd la] jall unfolding sp ns by simp
  also have "\<dots> = (if r = ''/'' then ''/'' else r @ ''/'') @ join_slash segs"
  proof (cases "S = []")
    case True
    with rS show ?thesis by simp
  next
    case False
    then have "join_slash S \<noteq> []"
      using pS join_slash_Nil_iff proper_ordinary by blast
    moreover have "r = CHR ''/'' # join_slash S"
      using rS False by simp
    ultimately show ?thesis
      using join_slash_append [OF False assms(2)] by simp
  qed
  finally show ?thesis .
qed

section \<open>Properties of the tile serving endpoint\<close>

lemma digit_not_dot_slash: "is_digit c \<Longrightarrow> c \<noteq> CHR ''.'' \<and> c \<noteq> CHR ''/''"
  by (auto simp: is_digit_def)

lemma valid_coordinate_proper: 
  assumes "isValidCoordinate v"
  shows "proper v"
proof -
  from assms have ne: "v \<noteq> []" and dg: "\<forall>c \<in> set v. is_digit c"
    by (simp_all add: isValidCoordinate_def list_all_iff)
  then have "hd v \<in> set v" by simp
  with dg have "hd v \<noteq> CHR ''.''" using digit_not_dot_slash by blast
  with ne have "v \<noteq> ''.''" "v \<noteq> ''..''" by auto
  moreover have "CHR ''/'' \<notin> set v" using dg digit_not_dot_slash by blast
  ultimately show ?thesis using ne by (simp add: proper_def ordinary_def)
qed

lemma tile_file_proper:
  assumes "isValidCoordinate y" and "e \<in> set ALLOWED_EXTENSIONS"
  shows "proper (y @ ''.'' @ e)"
proof -
  from assms(1) have ne: "y \<noteq> []" and dg: "\<forall>c \<in> set y. is_digit c"
    by (simp_all add: isValidCoordinate_def list_all_iff)
  then have "hd y \<in> set y" by simp
  with dg have hd: "hd (y @ ''.'' @ e) \<noteq> CHR ''.''"
    using ne digit_not_dot_slash by simp
  then have "y @ ''.'' @ e \<noteq> ''.''" "y @ ''.'' @ e \<noteq> ''..''"
    by (metis list.sel(1))+
  moreover have "CHR ''/'' \<notin> set e"
    using assms(2) by (auto simp: ALLOWED_EXTENSIONS_def)
  then have "CHR ''/'' \<notin> set (y @ ''.'' @ e)"
    using dg digit_not_dot_slash by auto
  ultimately show ?thesis using ne by (simp add: proper_def ordinary_def)
qed

lemma tile_path_normal_form:
  assumes "is_resolved TILE_ROOT"
    and "isValidCoordinate z" and "isValidCoordinate x" and "isValidCoordinate y"
    and "e \<in> set ALLOWED_EXTENSIONS"
  shows "path_normalize (path_join [TILE_ROOT, z, x, y @ ''.'' @ e]) =
           (if TILE_ROOT = ''/'' then ''/'' else TILE_ROOT @ ''/'') @ z @ ''/'' @ x @ ''/'' @ y @ ''.'' @ e"
proof -
  let ?segs = "[z, x, y @ ''.'' @ e]"
  have pr: "list_all proper ?segs"
    using assms valid_coordinate_proper tile_file_proper by simp
  have ne: "?segs \<noteq> []" by simp
  have j: "path_join (TILE_ROOT # ?segs) = (if TILE_ROOT = ''/'' then ''/'' else TILE_ROOT @ ''/'') @ join_slash ?segs"
    by (rule path_join_under_root [OF assms(1) ne pr])
  obtain S where pS: "list_all proper S"
    and rS: "TILE_ROOT = (if S = [] then ''/'' else CHR ''/'' # join_slash S)"
    using resolved_root_segments [OF assms(1)] by blast
  have "path_join (TILE_ROOT # ?segs) = CHR ''/'' # join_slash (S @ ?segs)"
  proof (cases "S = []")
    case True
    with rS j show ?thesis by simp
  next
    case False
    with rS have "TILE_ROOT = CHR ''/'' # join_slash S" by simp
    moreover have "TILE_ROOT \<noteq> ''/''"
      using False pS rS join_slash_Nil_iff proper_ordinary by auto
    ultimately show ?thesis
      using j join_slash_append [OF False ne] by simp
  qed
  moreover have "path_normalize (CHR ''/'' # join_slash (S @ ?segs)) = CHR ''/'' # join_slash (S @ ?segs)"
    using path_normalize_absolute [of "S @ ?segs"] pS pr by simp
  ultimately have "path_normalize (path_join (TILE_ROOT # ?segs)) = path_join (TILE_ROOT # ?segs)"
    by simp
  with j show ?thesis by simp
qed

lemma tile_handler_status_cases:
  "status (tile_handler TILE_ROOT fs z x y ext) \<in> {200, 400, 403, 404, 415, 500}"
  by (simp add: tile_handler_def Let_def json_response_def error_middleware_def final_handler_def
      split: file_status.splits)


text \<open>
  Claim C9. When \<open>z\<close>, \<open>x\<close> and \<open>y\<close> have passed the digits-only test and the
  extension is one of the allowed ones, the normalised path joined from the root, \<open>z\<close>,
  \<open>x\<close> and \<open>y.ext\<close> starts with the root, for every root that \<open>path.resolve\<close> can
  return; so the handler never answers 403 on such a request.
\<close>

theorem digits_only_path_never_escapes:
  assumes "is_resolved TILE_ROOT"
    and "isValidCoordinate z" and "isValidCoordinate x" and "isValidCoordinate y"
    and "toLowerCase ext \<in> set ALLOWED_EXTENSIONS"
  shows "prefix TILE_ROOT (path_normalize (path_join [TILE_ROOT, z, x, y @ ''.'' @ toLowerCase ext]))
       \<and> status (tile_handler TILE_ROOT fs z x y ext) \<noteq> 403"
proof -
  have nf: "path_normalize (path_join [TILE_ROOT, z, x, y @ ''.'' @ toLowerCase ext]) =
           (if TILE_ROOT = ''/'' then ''/'' else TILE_ROOT @ ''/'') @ z @ ''/'' @ x @ ''/'' @ y @ ''.'' @ toLowerCase ext"
    by (rule tile_path_normal_form [OF assms])
  have pre: "prefix TILE_ROOT (path_normalize (path_join [TILE_ROOT, z, x, y @ ''.'' @ toLowerCase ext]))"
    unfolding nf by (simp add: prefix_def)
  then have "status (tile_handler TILE_ROOT fs z x y ext) \<noteq> 403"
    using assms(2-5)
    by (simp add: tile_handler_def Let_def json_response_def error_middleware_def final_handler_def
        split: file_status.splits)
  with pre show ?thesis by simp
qed

theorem digits_only_path_witness:
  "is_resolved ''/srv/tiles'' \<and> isValidCoordinate ''12'' \<and> isValidCoordinate ''654''
   \<and> isValidCoordinate ''1582'' \<and> toLowerCase ''PNG'' \<in> set ALLOWED_EXTENSIONS
   \<and> prefix ''/srv/tiles''
        (path_normalize (path_join [''/srv/tiles'', ''12'', ''654'', ''1582'' @ ''.'' @ toLowerCase ''PNG'']))
   \<and> status (tile_handler ''/srv/tiles'' (\<lambda>p. Missing) ''12'' ''654'' ''1582'' ''PNG'') \<noteq> 403"
proof -
  have h: "is_resolved ''/srv/tiles''" "isValidCoordinate ''12''" "isValidCoordinate ''654''"
    "isValidCoordinate ''1582''" "toLowerCase ''PNG'' \<in> set ALLOWED_EXTENSIONS"
    by code_simp+
  from digits_only_path_never_escapes [OF h, of "\<lambda>p. Missing"] h show ?thesis by blast
qed


text \<open>The four stages of the handler, one lemma each.\<close>

lemma tile_handler_invalid:
  "\<not> isValidCoordinate z \<or> \<not> isValidCoordinate x \<or> \<not> isValidCoordinate y
     \<Longrightarrow> tile_handler TILE_ROOT fs z x y ext
         = json_response 400 [(''error'', ''Coordinates must be non-negative integers.'')]"
  by (simp add: tile_handler_def)

lemma tile_handler_unsupported:
  assumes "isValidCoordinate z" "isValidCoordinate x" "isValidCoordinate y"
    and "toLowerCase ext \<notin> set ALLOWED_EXTENSIONS"
  shows "status (tile_handler TILE_ROOT fs z x y ext) = 415
       \<and> is_error_object (body (tile_handler TILE_ROOT fs z x y ext))"
  using assms by (simp add: tile_handler_def Let_def json_response_def)

lemma tile_handler_escape:
  assumes "isValidCoordinate z" "isValidCoordinate x" "isValidCoordinate y"
    and "toLowerCase ext \<in> set ALLOWED_EXTENSIONS"
    and "\<not> prefix TILE_ROOT (path_normalize (path_join [TILE_ROOT, z, x, y @ ''.'' @ toLowerCase ext]))"
  shows "tile_handler TILE_ROOT fs z x y ext
       = json_response 403 [(''error'', ''Tile path escapes root directory.'')]"
  using assms by (simp add: tile_handler_def Let_def)

lemma tile_handler_lookup:
  assumes "isValidCoordinate z" "isValidCoordinate x" "isValidCoordinate y"
    and "toLowerCase ext \<in> set ALLOWED_EXTENSIONS"
    and "prefix TILE_ROOT (path_normalize (path_join [TILE_ROOT, z, x, y @ ''.'' @ toLowerCase ext]))"
  shows "tile_handler TILE_ROOT fs z x y ext =
     (case fs (path_normalize (path_join [TILE_ROOT, z, x, y @ ''.'' @ toLowerCase ext])) of
        AccessError code \<Rightarrow>
          if code = ''ENOENT'' then json_response 404 [(''error'', ''Tile not found.'')]
          else error_middleware
      | Readable bytes \<Rightarrow>
          \<lparr>status = 200,
           headers = [(''Cache-Control'', ''public, max-age=86400, immutable'')],
           body = FileBytes bytes\<rparr>
      | Directory \<Rightarrow> final_handler
      | Unsendable error \<Rightarrow> error_middleware)"
  using assms by (simp add: tile_handler_def Let_def)

text \<open>
  The checks of the tile route, in their order, and what each answers: a coordinate that
  is not made of decimal digits only gives 400; then an extension that, lower-cased, is
  not \<open>png\<close>, \<open>jpg\<close>, \<open>jpeg\<close> or \<open>webp\<close> gives 415; then a normalised path that does
  not start with the root gives 403; then a missing file gives 404 and any other error of
  the access test 500; a file that can be sent is answered 200 with its bytes, and one
  that cannot, 500. Unless a directory is at the path, every answer other than 200 is a
  JSON object with the one field \<open>error\<close>.
\<close>

lemma tile_handler_validation_order:
  fixes TILE_ROOT :: string and fs :: "string \<Rightarrow> file_status"
  defines "tilePath z x y ext \<equiv> path_normalize (path_join [TILE_ROOT, z, x, y @ ''.'' @ toLowerCase ext])"
  shows
  "(\<not> isValidCoordinate z \<or> \<not> isValidCoordinate x \<or> \<not> isValidCoordinate y
      \<longrightarrow> status (tile_handler TILE_ROOT fs z x y ext) = 400)
   \<and> (isValidCoordinate z \<and> isValidCoordinate x \<and> isValidCoordinate y
      \<and> toLowerCase ext \<notin> set [''png'', ''jpg'', ''jpeg'', ''webp'']
      \<longrightarrow> status (tile_handler TILE_ROOT fs z x y ext) = 415)
   \<and> (isValidCoordinate z \<and> isValidCoordinate x \<and> isValidCoordinate y
      \<and> toLowerCase ext \<in> set [''png'', ''jpg'', ''jpeg'', ''webp'']
      \<and> \<not> prefix TILE_ROOT (tilePath z x y ext)
      \<longrightarrow> status (tile_handler TILE_ROOT fs z x y ext) = 403)
   \<and> (isValidCoordinate z \<and> isValidCoordinate x \<and> isValidCoordinate y
      \<and> toLowerCase ext \<in> set [''png'', ''jpg'', ''jpeg'', ''webp'']
      \<and> prefix TILE_ROOT (tilePath z x y ext)
      \<longrightarrow> (fs (tilePath z x y ext) = AccessError ''ENOENT''
             \<longrightarrow> status (tile_handler TILE_ROOT fs z x y ext) = 404)
          \<and> (fs (tilePath z x y ext) = AccessError code \<and> code \<noteq> ''ENOENT''
             \<longrightarrow> status (tile_handler TILE_ROOT fs z x y ext) = 500)
          \<and> (fs (tilePath z x y ext) = Unsendable error
             \<longrightarrow> status (tile_handler TILE_ROOT fs z x y ext) = 500)
          \<and> (fs (tilePath z x y ext) = Readable bytes
             \<longrightarrow> status (tile_handler TILE_ROOT fs z x y ext) = 200
                 \<and> body (tile_handler TILE_ROOT fs z x y ext) = FileBytes bytes))
   \<and> (status (tile_handler TILE_ROOT fs z x y ext) \<noteq> 200
        \<and> fs (tilePath z x y ext) \<noteq> Directory
      \<longrightarrow> is_error_object (body (tile_handler TILE_ROOT fs z x y ext)))"
proof -
  have al: "set ALLOWED_EXTENSIONS = set [''png'', ''jpg'', ''jpeg'', ''webp'']"
    by (simp add: ALLOWED_EXTENSIONS_def)
  consider (invalid) "\<not> isValidCoordinate z \<or> \<not> isValidCoordinate x \<or> \<not> isValidCoordinate y"
    | (unsupported) "isValidCoordinate z" "isValidCoordinate x" "isValidCoordinate y"
        "toLowerCase ext \<notin> set ALLOWED_EXTENSIONS"
    | (escape) "isValidCoordinate z" "isValidCoordinate x" "isValidCoordinate y"
        "toLowerCase ext \<in> set ALLOWED_EXTENSIONS" "\<not> prefix TILE_ROOT (tilePath z x y ext)"
    | (lookup) "isValidCoordinate z" "isValidCoordinate x" "isValidCoordinate y"
        "toLowerCase ext \<in> set ALLOWED_EXTENSIONS" "prefix TILE_ROOT (tilePath z x y ext)"
    by blast
  then show ?thesis
  proof cases
    case invalid
    from tile_handler_invalid [OF this] invalid show ?thesis
      by (auto simp: json_response_def)
  next
    case unsupported
    from tile_handler_unsupported [OF this] unsupported show ?thesis
      unfolding al by blast
  next
    case escape
    from tile_handler_escape [OF escape [unfolded tilePath_def]] escape show ?thesis
      unfolding al by (auto simp: json_response_def)
  next
    case lookup
    note h = tile_handler_lookup [OF lookup [unfolded tilePath_def], of fs, folded tilePath_def]
    from lookup have c:
      "status (tile_handler TILE_ROOT fs z x y ext) \<noteq> 200 \<and> fs (tilePath z x y ext) \<noteq> Directory
         \<longrightarrow> is_error_object (body (tile_handler TILE_ROOT fs z x y ext))"
      unfolding h by (cases "fs (tilePath z x y ext)") (simp_all add: json_response_def error_middleware_def)
    have d: "(fs (tilePath z x y ext) = AccessError ''ENOENT''
             \<longrightarrow> status (tile_handler TILE_ROOT fs z x y ext) = 404)
          \<and> (fs (tilePath z x y ext) = AccessError code \<and> code \<noteq> ''ENOENT''
             \<longrightarrow> status (tile_handler TILE_ROOT fs z x y ext) = 500)
          \<and> (fs (tilePath z x y ext) = Unsendable error
             \<longrightarrow> status (tile_handler TILE_ROOT fs z x y ext) = 500)
          \<and> (fs (tilePath z x y ext) = Readable bytes
             \<longrightarrow> status (tile_handler TILE_ROOT fs z x y ext) = 200
                 \<and> body (tile_handler TILE_ROOT fs z x y ext) = FileBytes bytes)"
      unfolding h by (cases "fs (tilePath z x y ext)") (simp_all add: json_response_def error_middleware_def)
    from lookup c d show ?thesis unfolding al by blast
  qed
qed

text \<open>The request \<open>/tiles/0/0/0.png\<close> to a server whose root is \<open>/srv/tiles\<close>.\<close>

lemma example_tile_path:
  "path_normalize (path_join [''/srv/tiles'', ''0'', ''0'', ''0'' @ ''.'' @ toLowerCase ''png''])
     = ''/srv/tiles/0/0/0.png''"
  by code_simp

lemma example_request:
  "tile_handler ''/srv/tiles'' fs ''0'' ''0'' ''0'' ''png'' =
     (case fs ''/srv/tiles/0/0/0.png'' of
        AccessError code \<Rightarrow>
          if code = ''ENOENT'' then json_response 404 [(''error'', ''Tile not found.'')]
          else error_middleware
      | Readable bytes \<Rightarrow>
          \<lparr>status = 200,
           headers = [(''Cache-Control'', ''public, max-age=86400, immutable'')],
           body = FileBytes bytes\<rparr>
      | Directory \<Rightarrow> final_handler
      | Unsendable error \<Rightarrow> error_middleware)"
proof -
  have v: "isValidCoordinate ''0''" by code_simp
  have e: "toLowerCase ''png'' \<in> set ALLOWED_EXTENSIONS" by code_simp
  have p: "prefix ''/srv/tiles'' ''/srv/tiles/0/0/0.png''" by code_simp
  show ?thesis
    unfolding tile_handler_def Let_def example_tile_path
    using v e p by (simp only: simp_thms if_True if_False)
qed

text \<open>
  The branches on requests to a root \<open>/srv/tiles\<close>: a coordinate \<open>abc\<close>, the extension
  \<open>bmp\<close>, a missing file, a file that cannot be accessed, one that cannot be sent, and a
  readable tile.
\<close>

lemma tile_handler_branches:
  "status (tile_handler ''/srv/tiles'' (\<lambda>p. Missing) ''5'' ''10'' ''abc'' ''png'') = 400
   \<and> status (tile_handler ''/srv/tiles'' (\<lambda>p. Missing) ''0'' ''0'' ''0'' ''bmp'') = 415
   \<and> status (tile_handler ''/srv/tiles'' (\<lambda>p. Missing) ''0'' ''0'' ''0'' ''png'') = 404
   \<and> status (tile_handler ''/srv/tiles'' (\<lambda>p. AccessError ''EACCES'') ''0'' ''0'' ''0'' ''png'') = 500
   \<and> status (tile_handler ''/srv/tiles'' (\<lambda>p. Unsendable ''ENOENT'') ''0'' ''0'' ''0'' ''png'') = 500
   \<and> status (tile_handler ''/srv/tiles'' (\<lambda>p. Readable ''tile'') ''0'' ''0'' ''0'' ''png'') = 200
   \<and> body (tile_handler ''/srv/tiles'' (\<lambda>p. Readable ''tile'') ''0'' ''0'' ''0'' ''png'') = FileBytes ''tile''
   \<and> body (tile_handler ''/srv/tiles'' (\<lambda>p. Missing) ''0'' ''0'' ''0'' ''png'')
        = JsonObject [(''error'', ''Tile not found.'')]"
proof -
  have "status (tile_handler ''/srv/tiles'' (\<lambda>p. Missing) ''5'' ''10'' ''abc'' ''png'') = 400"
    by code_simp
  moreover have "status (tile_handler ''/srv/tiles'' (\<lambda>p. Missing) ''0'' ''0'' ''0'' ''bmp'') = 415"
    by code_simp
  ultimately show ?thesis
    by (simp add: example_request json_response_def error_middleware_def)
qed

text \<open>
  Claim C3. Every error response is to be a JSON object with an \<open>error\<close> field. The
  handler answers so wherever it answers itself, and so does the error middleware; but
  \<open>res.sendFile\<close> is called without a callback, and a directory at the tile path passes
  \<open>fs.access\<close>: the request \<open>/tiles/0/0/0.png\<close>, with a directory \<open>0.png\<close> under
  \<open>/srv/tiles/0/0\<close>, falls through to the final handler of Express and is answered 404
  with an HTML page, not with a JSON object. The same request for a path that holds
  nothing is answered 404 with the JSON object.
\<close>

theorem tile_handler_directory_not_json:
  "status (tile_handler ''/srv/tiles''
       (\<lambda>p. if p = ''/srv/tiles/0/0/0.png'' then Directory else Missing) ''0'' ''0'' ''0'' ''png'') = 404
   \<and> body (tile_handler ''/srv/tiles''
       (\<lambda>p. if p = ''/srv/tiles/0/0/0.png'' then Directory else Missing) ''0'' ''0'' ''0'' ''png'') = DefaultPage
   \<and> \<not> is_error_object (body (tile_handler ''/srv/tiles''
       (\<lambda>p. if p = ''/srv/tiles/0/0/0.png'' then Directory else Missing) ''0'' ''0'' ''0'' ''png''))
   \<and> is_error_object (body (tile_handler ''/srv/tiles'' (\<lambda>p. Missing) ''0'' ''0'' ''0'' ''png''))"
  by (simp add: example_request final_handler_def json_response_def)

text \<open>
  The request passes the three checks before the file system is consulted: the
  coordinates are digits, the extension is allowed and the path lies under the root.
\<close>

theorem tile_handler_directory_witness:
  "isValidCoordinate ''0'' \<and> toLowerCase ''png'' \<in> set ALLOWED_EXTENSIONS
   \<and> path_normalize (path_join [''/srv/tiles'', ''0'', ''0'', ''0'' @ ''.'' @ toLowerCase ''png''])
        = ''/srv/tiles/0/0/0.png''
   \<and> prefix ''/srv/tiles'' ''/srv/tiles/0/0/0.png''
   \<and> status (tile_handler ''/srv/tiles''
       (\<lambda>p. if p = ''/srv/tiles/0/0/0.png'' then Directory else Missing) ''0'' ''0'' ''0'' ''png'') = 404
   \<and> body (tile_handler ''/srv/tiles''
       (\<lambda>p. if p = ''/srv/tiles/0/0/0.png'' then Directory else Missing) ''0'' ''0'' ''0'' ''png'') = DefaultPage"
proof -
  have "isValidCoordinate ''0''" by code_simp
  moreover have "toLowerCase ''png'' \<in> set ALLOWED_EXTENSIONS" by code_simp
  moreover have "prefix ''/srv/tiles'' ''/srv/tiles/0/0/0.png''" by code_simp
  moreover note example_tile_path tile_handler_directory_not_json
  ultimately show ?thesis by blast
qed

section \<open>Properties of the geodesy functions\<close>





lemma clamp_index_range:
  fixes k :: int
  shows "0 \<le> min (max k 0) (2 ^ m - 1) \<and> min (max k 0) (2 ^ m - 1) \<le> 2 ^ m - 1"
  by simp



section \<open>Properties of the tile address enumerator\<close>











text \<open>
  Claim C6. \<open>computeBoundingBox\<close> returns the box symmetric about the centre, with
  \<open>latDelta = (radiusMeters / 6371008.8) * 180 / \<pi>\<close> and
  \<open>lonDelta = (radiusMeters / 6371008.8) * 180 / (\<pi> * max(cos(latRad), 1e-6))\<close>; the cosine
  divisor is never below \<open>1e-6\<close>, so the division is by a positive number.
\<close>

theorem computeBoundingBox_formula:
  "minLat (computeBoundingBox lat lon radiusMeters) = lat - (radiusMeters / 6371008.8) * 180 / pi
   \<and> maxLat (computeBoundingBox lat lon radiusMeters) = lat + (radiusMeters / 6371008.8) * 180 / pi
   \<and> minLon (computeBoundingBox lat lon radiusMeters)
       = lon - (radiusMeters / 6371008.8) * 180 / (pi * max (cos (lat * pi / 180)) (1 / 1000000))
   \<and> maxLon (computeBoundingBox lat lon radiusMeters)
       = lon + (radiusMeters / 6371008.8) * 180 / (pi * max (cos (lat * pi / 180)) (1 / 1000000))
   \<and> cosDivisor lat = max (cos (lat * pi / 180)) (1 / 1000000)
   \<and> 1 / 1000000 \<le> cosDivisor lat
   \<and> 0 < pi * cosDivisor lat"
proof -
  have d: "1 / 1000000 \<le> cosDivisor lat"
    by (simp add: cosDivisor_def)
  then have "0 < cosDivisor lat" by simp
  then have "0 < pi * cosDivisor lat" by simp
  with d show ?thesis
    by (simp add: computeBoundingBox_def Let_def EARTH_RADIUS_METERS_def cosDivisor_def)
qed








section \<open>Properties of the batch downloader\<close>



text \<open>
  Claim C10. \<open>downloadTile\<close> creates the parent directories and writes the tile file only
  after a response with a 2xx status whose body was read: on a transport error or a
  non-2xx response it returns \<open>{success: false, error}\<close> and leaves the file store as it
  was; whenever the store has changed, or the result is a success, the response was 2xx.
\<close>

theorem downloadTile_writes_only_after_2xx:
  "(fetch env (length (requests w)) url = TransportError message
      \<longrightarrow> fst (downloadTile env url outputPath w) = Failure message
          \<and> store (snd (downloadTile env url outputPath w)) = store w)
   \<and> (fetch env (length (requests w)) url = Response response \<and> \<not> response_ok response
      \<longrightarrow> (\<exists>error. fst (downloadTile env url outputPath w) = Failure error)
          \<and> store (snd (downloadTile env url outputPath w)) = store w)
   \<and> (store (snd (downloadTile env url outputPath w)) \<noteq> store w
      \<longrightarrow> (\<exists>response buffer. fetch env (length (requests w)) url = Response response
            \<and> response_ok response \<and> arrayBuffer response = Inr buffer))
   \<and> (fst (downloadTile env url outputPath w) = Success
      \<longrightarrow> (\<exists>response buffer fs1.
            fetch env (length (requests w)) url = Response response
            \<and> response_ok response \<and> arrayBuffer response = Inr buffer
            \<and> mkdir_recursive env (dirname env outputPath) (store w) = (None, fs1)
            \<and> writeFile env outputPath buffer fs1 = (None, store (snd (downloadTile env url outputPath w)))))"
proof -
  have a: "fetch env (length (requests w)) url = TransportError message
      \<longrightarrow> fst (downloadTile env url outputPath w) = Failure message
          \<and> store (snd (downloadTile env url outputPath w)) = store w"
    by (simp add: downloadTile_def Let_def)
  have b: "fetch env (length (requests w)) url = Response response \<and> \<not> response_ok response
      \<longrightarrow> (\<exists>error. fst (downloadTile env url outputPath w) = Failure error)
          \<and> store (snd (downloadTile env url outputPath w)) = store w"
    by (simp add: downloadTile_def Let_def)
  have c: "store (snd (downloadTile env url outputPath w)) \<noteq> store w
      \<longrightarrow> (\<exists>response buffer. fetch env (length (requests w)) url = Response response
            \<and> response_ok response \<and> arrayBuffer response = Inr buffer)"
    by (simp add: downloadTile_def Let_def
        split: fetch_outcome.splits sum.splits prod.splits option.splits)
  have d: "fst (downloadTile env url outputPath w) = Success
      \<longrightarrow> (\<exists>response buffer fs1.
            fetch env (length (requests w)) url = Response response
            \<and> response_ok response \<and> arrayBuffer response = Inr buffer
            \<and> mkdir_recursive env (dirname env outputPath) (store w) = (None, fs1)
            \<and> writeFile env outputPath buffer fs1 = (None, store (snd (downloadTile env url outputPath w))))"
    by (simp add: downloadTile_def Let_def
        split: fetch_outcome.splits sum.splits prod.splits option.splits)
  from a b c d show ?thesis by blast
qed

lemma show_nat_404: "show_nat 404 = ''404''"
  by code_simp

theorem downloadTile_witness:
  "fst (downloadTile example_platform ''u'' ''/out/0/0/0.png'' (example_world [])) = Failure ''HTTP 404 Not Found''
   \<and> store (snd (downloadTile example_platform ''u'' ''/out/0/0/0.png'' (example_world []))) = []
   \<and> fst (downloadTile example_platform ''u'' ''/out/0/0/0.png'' (example_world [''a'', ''b''])) = Failure ''fetch failed''
   \<and> store (snd (downloadTile example_platform ''u'' ''/out/0/0/0.png'' (example_world [''a'', ''b'']))) = []
   \<and> fst (downloadTile example_platform ''u'' ''/out/0/0/0.png'' (example_world [''a''])) = Success
   \<and> store (snd (downloadTile example_platform ''u'' ''/out/0/0/0.png'' (example_world [''a''])))
        = [(''/out/0/0/0.png'', ''tile'')]"
proof -
  let ?r404 = "\<lparr>status_code = 404, statusText = ''Not Found'', arrayBuffer = Inr []\<rparr>"
  have f0: "fetch example_platform (length (requests (example_world []))) ''u'' = Response ?r404"
    and n0: "\<not> response_ok ?r404"
    by (simp_all add: example_platform_def example_world_def response_ok_def)
  have f2: "fetch example_platform (length (requests (example_world [''a'', ''b'']))) ''u''
              = TransportError ''fetch failed''"
    by (simp add: example_platform_def example_world_def)
  note t = downloadTile_writes_only_after_2xx
  have a: "store (snd (downloadTile example_platform ''u'' ''/out/0/0/0.png'' (example_world []))) = []"
    using t [of example_platform "example_world []" "''u''" _ "''/out/0/0/0.png''" ?r404] f0 n0
    by (simp add: example_world_def)
  have b: "fst (downloadTile example_platform ''u'' ''/out/0/0/0.png'' (example_world [''a'', ''b''])) = Failure ''fetch failed''
      \<and> store (snd (downloadTile example_platform ''u'' ''/out/0/0/0.png'' (example_world [''a'', ''b'']))) = []"
    using t [of example_platform "example_world [''a'', ''b'']" "''u''" "''fetch failed''" "''/out/0/0/0.png''"] f2
    by (simp add: example_world_def)
  have c: "fst (downloadTile example_platform ''u'' ''/out/0/0/0.png'' (example_world [])) = Failure ''HTTP 404 Not Found''"
    by (simp add: downloadTile_def example_platform_def example_world_def response_ok_def Let_def
        show_nat_404)
  have d: "fst (downloadTile example_platform ''u'' ''/out/0/0/0.png'' (example_world [''a''])) = Success
      \<and> store (snd (downloadTile example_platform ''u'' ''/out/0/0/0.png'' (example_world [''a''])))
        = [(''/out/0/0/0.png'', ''tile'')]"
    by (simp add: downloadTile_def example_platform_def example_world_def response_ok_def Let_def)
  from a b c d show ?thesis by blast
qed











end
